theory Spec2Isabelle
  imports Main "HOL-Library.Word"
begin

section \<open>DatabaseManager: a wrapper around one sqlite3 connection\<close>

text \<open>
  The source is the class \<^verbatim>\<open>DatabaseManager\<close> of \<^verbatim>\<open>databaseManager.py\<close>. Every
  method is embedded as a function from the state before the call to the state after it
  and the outcome: \<open>Inr\<close> the returned value, \<open>Inl\<close> the exception that propagates.
  A Python exception does not undo what was done before it was raised, so the state is
  returned in both cases.
\<close>

subsection \<open>Python strings\<close>

text \<open>
  Strings are ASCII texts. \<open>upper\<close> is \<^verbatim>\<open>str.upper\<close> on ASCII: the letters a-z move
  to A-Z and every other character stays.
\<close>

definition upper_char :: "char \<Rightarrow> char" where
  "upper_char c =
     (let n = (of_char c :: nat) in if 97 \<le> n \<and> n \<le> 122 then char_of (n - 32) else c)"

definition upper :: "string \<Rightarrow> string" where
  "upper s = map upper_char s"

definition lower_char :: "char \<Rightarrow> char" where
  "lower_char c =
     (let n = (of_char c :: nat) in if 65 \<le> n \<and> n \<le> 90 then char_of (n + 32) else c)"

definition lower :: "string \<Rightarrow> string" where
  "lower s = map lower_char s"

definition startswith :: "string \<Rightarrow> string \<Rightarrow> bool" where
  "startswith s p = (take (length p) s = p)"

text \<open>\<^verbatim>\<open>sep.join(xs)\<close>.\<close>

fun join :: "string \<Rightarrow> string list \<Rightarrow> string" where
  "join sep [] = []"
| "join sep [x] = x"
| "join sep (x # y # ys) = x @ sep @ join sep (y # ys)"

text \<open>
  \<^verbatim>\<open>s.split(sep)\<close> for a non-empty separator: the text is cut at every occurrence of
  \<open>sep\<close>, found from left to right without overlap; the empty text gives one empty piece.
  (Python raises ValueError for an empty separator; the source only splits at the
  constants \<^verbatim>\<open>', '\<close> and \<^verbatim>\<open>' '\<close>, and the model leaves a text uncut for it.)
\<close>

function split :: "string \<Rightarrow> string \<Rightarrow> string list" where
  "split sep s =
     (if s = [] then [[]]
      else if sep \<noteq> [] \<and> startswith s sep then [] # split sep (drop (length sep) s)
      else (case split sep (tl s) of
              [] \<Rightarrow> [[hd s]]
            | w # ws \<Rightarrow> (hd s # w) # ws))"
  by pat_completeness auto
termination
  by (relation "measure (\<lambda>(sep, s). length s)") auto

declare split.simps [simp del]

subsection \<open>Python values\<close>

text \<open>
  The values that reach the code: list elements, fields of a record, results of a query.
  Only three things are ever asked of a value: the name of its runtime type
  (\<^verbatim>\<open>type(v).__name__\<close>), whether it is callable, and that what comes back from the
  database is the value that was stored. Floats are carried as their 64-bit pattern; no
  arithmetic is done on them.
\<close>

datatype pyval =
    PyNone
  | PyBool bool
  | PyInt int
  | PyFloat "64 word"
  | PyStr string
  | NpInt64 "64 word"
  | NpFloat64 "64 word"
  | PyFunction string
  | PyObject string

fun type_name :: "pyval \<Rightarrow> string" where
  "type_name PyNone = ''NoneType''"
| "type_name (PyBool _) = ''bool''"
| "type_name (PyInt _) = ''int''"
| "type_name (PyFloat _) = ''float''"
| "type_name (PyStr _) = ''str''"
| "type_name (NpInt64 _) = ''int64''"
| "type_name (NpFloat64 _) = ''float64''"
| "type_name (PyFunction _) = ''function''"
| "type_name (PyObject cls) = cls"

fun callable :: "pyval \<Rightarrow> bool" where
  "callable (PyFunction _) = True"
| "callable _ = False"

datatype error =
    IndexError
  | ValueError
  | NameError string
  | ProgrammingError
  | OperationalError
  | InterfaceError

subsection \<open>The database driver\<close>

text \<open>
  \<^verbatim>\<open>sqlite3\<close> is a collaborator of the class, not part of it. Its model keeps what the
  methods can observe. A statement is one of the six texts the class builds; the names
  interpolated into a text are taken to be plain identifiers, so that the engine reads the
  text as the statement it is meant to be. \<open>sql_text\<close> is the text handed to
  \<^verbatim>\<open>cursor.execute\<close>, character by character.
\<close>

datatype stmt =
    CreateScalarTable string string
  | CreateObjectTable string "string list"
  | DropTable string
  | InsertElement string
  | SelectElement string
  | SelectAll string

definition indent :: "nat \<Rightarrow> string" where
  "indent n = replicate n CHR '' ''"

definition nl :: string where
  "nl = [CHR 0x0A]"

fun sql_text :: "stmt \<Rightarrow> string" where
  "sql_text (CreateScalarTable tn element_type) =
     nl @ indent 12 @ ''CREATE TABLE IF NOT EXISTS '' @ tn @ '' ('' @ nl
        @ indent 16 @ ''id INTEGER PRIMARY KEY AUTOINCREMENT,'' @ nl
        @ indent 16 @ ''list_element '' @ element_type @ nl
        @ indent 12 @ '')'' @ nl @ indent 8"
| "sql_text (CreateObjectTable tn updated_columns) =
     nl @ indent 12 @ ''CREATE TABLE IF NOT EXISTS '' @ tn @ '' ('' @ nl
        @ indent 16 @ join '', '' updated_columns @ nl
        @ indent 12 @ '')'' @ nl @ indent 8"
| "sql_text (DropTable tn) = ''DROP TABLE IF EXISTS '' @ tn"
| "sql_text (InsertElement tn) = ''INSERT INTO '' @ tn @ '' (list_element) VALUES (?)''"
| "sql_text (SelectElement tn) = ''SELECT list_element FROM '' @ tn"
| "sql_text (SelectAll tn) = ''SELECT * FROM '' @ tn"

text \<open>
  A table keeps its column definitions as written in the statement that created it
  (\<^verbatim>\<open>name type\<close>), its rows, each with its rowid, and the largest rowid given out so
  far (what \<^verbatim>\<open>sqlite_sequence\<close> records for the table).
\<close>

record table =
  coldefs :: "string list"
  rows :: "(int \<times> pyval list) list"
  seq :: int

definition col_name :: "string \<Rightarrow> string" where
  "col_name d = takeWhile (\<lambda>c. c \<noteq> CHR '' '') d"

definition col_type :: "string \<Rightarrow> string" where
  "col_type d = drop (length (col_name d) + 1) d"

text \<open>Names of tables and columns are compared without regard to case.\<close>

fun find_col :: "string \<Rightarrow> string list \<Rightarrow> nat option" where
  "find_col n [] = None"
| "find_col n (d # ds) =
     (if lower (col_name d) = lower n then Some 0
      else (case find_col n ds of None \<Rightarrow> None | Some i \<Rightarrow> Some (Suc i)))"

definition is_rowid_alias :: "string \<Rightarrow> bool" where
  "is_rowid_alias d = startswith (upper (col_type d)) ''INTEGER PRIMARY KEY''"

datatype call = Execute stmt "pyval list" | Commit | Fetchall | Close

text \<open>
  A connection with its one cursor. \<open>adapt ty v\<close> is what the engine keeps, and later
  returns, when the value \<open>v\<close> is bound into a column declared with the type text \<open>ty\<close>
  (binding of the Python value and the type affinity of the column), or the error it
  raises: it belongs to the engine, and every theorem holds for any such function.
  \<open>pending\<close> is the result set the cursor holds; \<open>journal\<close> lists the calls the
  driver has carried out, oldest first.
\<close>

record connection =
  is_closed :: bool
  tables :: "string \<rightharpoonup> table"
  pending :: "pyval list list"
  journal :: "call list"
  adapt :: "string \<Rightarrow> pyval \<Rightarrow> error + pyval"

definition scalar_coldefs :: "string \<Rightarrow> string list" where
  "scalar_coldefs element_type =
     [''id INTEGER PRIMARY KEY AUTOINCREMENT'', ''list_element '' @ element_type]"

definition new_table :: "string list \<Rightarrow> table" where
  "new_table ds = \<lparr>coldefs = ds, rows = [], seq = 0\<rparr>"

text \<open>
  The row that \<^verbatim>\<open>INSERT INTO t (list_element) VALUES (?)\<close> adds: the bound value in
  the column \<open>list_element\<close>, the new rowid in a column that is the integer primary
  key, NULL elsewhere.
\<close>

definition new_row :: "string list \<Rightarrow> nat \<Rightarrow> int \<Rightarrow> pyval \<Rightarrow> pyval list" where
  "new_row ds i rid v =
     map (\<lambda>(j, d). if j = i then v else if is_rowid_alias d then PyInt rid else PyNone)
       (zip [0..<length ds] ds)"

text \<open>
  The rowid of a new row is one more than the largest rowid that is, or ever was, in the
  table.
\<close>

definition next_rowid :: "table \<Rightarrow> int" where
  "next_rowid t = foldr max (map fst (rows t)) (seq t) + 1"

definition insert_element ::
  "(string \<Rightarrow> pyval \<Rightarrow> error + pyval) \<Rightarrow> table \<Rightarrow> pyval \<Rightarrow> error + table" where
  "insert_element ad t v =
     (case find_col ''list_element'' (coldefs t) of
        None \<Rightarrow> Inl OperationalError
      | Some i \<Rightarrow>
          (case ad (col_type (coldefs t ! i)) v of
             Inl e \<Rightarrow> Inl e
           | Inr v' \<Rightarrow>
               Inr (t\<lparr>rows := rows t @ [(next_rowid t, new_row (coldefs t) i (next_rowid t) v')],
                      seq := next_rowid t\<rparr>)))"

text \<open>A table is read in ascending rowid order.\<close>

definition scan :: "table \<Rightarrow> pyval list list" where
  "scan t = map snd (sort_key fst (rows t))"

definition select_element :: "table \<Rightarrow> error + pyval list list" where
  "select_element t =
     (case find_col ''list_element'' (coldefs t) of
        None \<Rightarrow> Inl OperationalError
      | Some i \<Rightarrow> Inr (map (\<lambda>r. [r ! i]) (scan t)))"

definition executed :: "connection \<Rightarrow> stmt \<Rightarrow> pyval list \<Rightarrow> pyval list list \<Rightarrow> connection" where
  "executed c s params res = c\<lparr>pending := res, journal := journal c @ [Execute s params]\<rparr>"

text \<open>
  \<^verbatim>\<open>cursor.execute(sql, params)\<close>. A closed connection refuses every statement with
  ProgrammingError; a missing table or column is an OperationalError; a parameter list
  that does not match the placeholders is a ProgrammingError. A statement that fails
  changes nothing.
\<close>

fun run :: "connection \<Rightarrow> stmt \<Rightarrow> pyval list \<Rightarrow> error + connection" where
  "run c (CreateScalarTable tn element_type) params =
     (case tables c (lower tn) of
        Some _ \<Rightarrow> Inr (executed c (CreateScalarTable tn element_type) params [])
      | None \<Rightarrow>
          Inr (executed (c\<lparr>tables := (tables c)(lower tn \<mapsto> new_table (scalar_coldefs element_type))\<rparr>)
                 (CreateScalarTable tn element_type) params []))"
| "run c (CreateObjectTable tn updated_columns) params =
     (case tables c (lower tn) of
        Some _ \<Rightarrow> Inr (executed c (CreateObjectTable tn updated_columns) params [])
      | None \<Rightarrow>
          if distinct (map (\<lambda>d. lower (col_name d)) updated_columns)
          then Inr (executed (c\<lparr>tables := (tables c)(lower tn \<mapsto> new_table updated_columns)\<rparr>)
                      (CreateObjectTable tn updated_columns) params [])
          else Inl OperationalError)"
| "run c (DropTable tn) params =
     Inr (executed (c\<lparr>tables := (tables c)(lower tn := None)\<rparr>) (DropTable tn) params [])"
| "run c (InsertElement tn) params =
     (case params of
        [v] \<Rightarrow>
          (case tables c (lower tn) of
             None \<Rightarrow> Inl OperationalError
           | Some t \<Rightarrow>
               (case insert_element (adapt c) t v of
                  Inl e \<Rightarrow> Inl e
                | Inr t' \<Rightarrow>
                    Inr (executed (c\<lparr>tables := (tables c)(lower tn \<mapsto> t')\<rparr>)
                           (InsertElement tn) params [])))
      | _ \<Rightarrow> Inl ProgrammingError)"
| "run c (SelectElement tn) params =
     (case tables c (lower tn) of
        None \<Rightarrow> Inl OperationalError
      | Some t \<Rightarrow>
          (case select_element t of
             Inl e \<Rightarrow> Inl e
           | Inr res \<Rightarrow> Inr (executed c (SelectElement tn) params res)))"
| "run c (SelectAll tn) params =
     (case tables c (lower tn) of
        None \<Rightarrow> Inl OperationalError
      | Some t \<Rightarrow> Inr (executed c (SelectAll tn) params (scan t)))"

definition cursor_execute ::
  "connection \<Rightarrow> stmt \<Rightarrow> pyval list \<Rightarrow> connection \<times> (error + unit)" where
  "cursor_execute c s params =
     (if is_closed c then (c, Inl ProgrammingError)
      else (case run c s params of Inl e \<Rightarrow> (c, Inl e) | Inr c' \<Rightarrow> (c', Inr ())))"

definition cursor_fetchall :: "connection \<Rightarrow> connection \<times> (error + pyval list list)" where
  "cursor_fetchall c =
     (if is_closed c then (c, Inl ProgrammingError)
      else (c\<lparr>pending := [], journal := journal c @ [Fetchall]\<rparr>, Inr (pending c)))"

definition conn_commit :: "connection \<Rightarrow> connection \<times> (error + unit)" where
  "conn_commit c =
     (if is_closed c then (c, Inl ProgrammingError)
      else (c\<lparr>journal := journal c @ [Commit]\<rparr>, Inr ()))"

text \<open>\<^verbatim>\<open>conn.close()\<close> never fails; on a closed connection it does nothing.\<close>

definition conn_close :: "connection \<Rightarrow> connection" where
  "conn_close c =
     (if is_closed c then c else c\<lparr>is_closed := True, journal := journal c @ [Close]\<rparr>)"

subsection \<open>The class\<close>

text \<open>
  The instance (\<open>db_name\<close>, \<open>table_name\<close>, and \<open>conn\<close> with its cursor) together
  with the lines printed so far.
\<close>

record state =
  db_name :: string
  table_name :: string
  conn :: connection
  stdout :: "string list"

definition print :: "state \<Rightarrow> string \<Rightarrow> state" where
  "print st line = st\<lparr>stdout := stdout st @ [line]\<rparr>"

text \<open>
  \<^verbatim>\<open>create_table(self, element_type='REAL')\<close>: lines 20 to 26. The default of the
  argument is passed by the callers that omit it.
\<close>

definition create_table :: "state \<Rightarrow> string \<Rightarrow> state \<times> (error + unit)" where
  "create_table st element_type =
     (case cursor_execute (conn st) (CreateScalarTable (table_name st) element_type) [] of
        (c, Inl e) \<Rightarrow> (st\<lparr>conn := c\<rparr>, Inl e)
      | (c, Inr _) \<Rightarrow>
          (case conn_commit c of (c', r) \<Rightarrow> (st\<lparr>conn := c'\<rparr>, r)))"

text \<open>
  \<^verbatim>\<open>__init__(self, db_name, table_name='my_table')\<close>: \<open>c\<close> is the connection that
  \<^verbatim>\<open>sqlite3.connect(db_name)\<close> opens, \<open>out\<close> what has been printed before.
\<close>

definition init :: "connection \<Rightarrow> string list \<Rightarrow> string \<Rightarrow> string \<Rightarrow> state \<times> (error + unit)" where
  "init c out dbn tn =
     create_table \<lparr>db_name = dbn, table_name = tn, conn = c, stdout = out\<rparr> ''REAL''"

text \<open>
  The record given to \<^verbatim>\<open>create_table_for_object\<close> (a row of a data frame): the labels
  of \<^verbatim>\<open>obj.index\<close> in order, \<^verbatim>\<open>obj[attr]\<close> and \<^verbatim>\<open>getattr(obj, attr)\<close>. The two
  lookups differ where a label is also the name of a member of the object's class: the
  attribute lookup then finds the member.
\<close>

record series =
  index :: "string list"
  getitem :: "string \<Rightarrow> pyval"
  getattr :: "string \<Rightarrow> pyval"

text \<open>The dictionary of line 47 and \<^verbatim>\<open>dict.get(key, default)\<close>.\<close>

definition column_types :: "string \<rightharpoonup> string" where
  "column_types = [''STR'' \<mapsto> ''TEXT'', ''INT64'' \<mapsto> ''INTEGER'', ''FLOAT64'' \<mapsto> ''REAL'']"

definition dict_get :: "('k \<rightharpoonup> 'v) \<Rightarrow> 'k \<Rightarrow> 'v \<Rightarrow> 'v" where
  "dict_get d k dflt = (case d k of None \<Rightarrow> dflt | Some v \<Rightarrow> v)"

text \<open>Line 44, before the join: one text \<^verbatim>\<open>NAME typename\<close> for each field kept.\<close>

definition properties :: "series \<Rightarrow> string list" where
  "properties obj =
     map (\<lambda>attr. upper attr @ '' '' @ type_name (getitem obj attr))
       (filter (\<lambda>attr. \<not> callable (getattr obj attr) \<and> \<not> startswith attr ''__'') (index obj))"

text \<open>
  The loop of lines 55 to 58. Unpacking \<^verbatim>\<open>column.split(' ')\<close> into two names raises
  ValueError unless the split gives exactly two pieces.
\<close>

fun update_columns :: "string list \<Rightarrow> error + string list" where
  "update_columns [] = Inr []"
| "update_columns (column # columns) =
     (case split '' '' column of
        [column_name, column_type] \<Rightarrow>
          (case update_columns columns of
             Inl e \<Rightarrow> Inl e
           | Inr updated_columns \<Rightarrow>
               Inr ((column_name @ '' '' @ dict_get column_types column_type column_type)
                    # updated_columns))
      | _ \<Rightarrow> Inl ValueError)"

text \<open>
  \<^verbatim>\<open>create_table_for_object(self, obj)\<close>. Line 66 reads \<^verbatim>\<open>conn.commit()\<close>: \<open>conn\<close>
  is neither a local nor a name of the module (which binds \<open>sqlite3\<close>, \<open>List\<close>, \<open>pd\<close>
  and \<open>DatabaseManager\<close>), so once the statement has been executed the call raises
  NameError.
\<close>

definition create_table_for_object :: "state \<Rightarrow> series \<Rightarrow> state \<times> (error + unit)" where
  "create_table_for_object st obj =
     (let table_properties = upper (join '', '' (properties obj));
          columns = split '', '' table_properties
      in case update_columns columns of
           Inl e \<Rightarrow> (st, Inl e)
         | Inr updated_columns \<Rightarrow>
             (case cursor_execute (conn st) (CreateObjectTable (table_name st) updated_columns) [] of
                (c, Inl e) \<Rightarrow> (st\<lparr>conn := c\<rparr>, Inl e)
              | (c, Inr _) \<Rightarrow> (st\<lparr>conn := c\<rparr>, Inl (NameError ''conn''))))"

definition delete_table :: "state \<Rightarrow> state \<times> (error + unit)" where
  "delete_table st =
     (case cursor_execute (conn st) (DropTable (table_name st)) [] of
        (c, Inl e) \<Rightarrow> (st\<lparr>conn := c\<rparr>, Inl e)
      | (c, Inr _) \<Rightarrow>
          (case conn_commit c of
             (c', Inl e) \<Rightarrow> (st\<lparr>conn := c'\<rparr>, Inl e)
           | (c', Inr _) \<Rightarrow>
               (print (st\<lparr>conn := c'\<rparr>) (''Table '' @ table_name st @ '' deleted.''), Inr ())))"

text \<open>The loop of lines 86 and 87: one execute for each element, until one raises.\<close>

fun insert_all :: "state \<Rightarrow> pyval list \<Rightarrow> state \<times> (error + unit)" where
  "insert_all st [] = (st, Inr ())"
| "insert_all st (element # elements) =
     (case cursor_execute (conn st) (InsertElement (table_name st)) [element] of
        (c, Inl e) \<Rightarrow> (st\<lparr>conn := c\<rparr>, Inl e)
      | (c, Inr _) \<Rightarrow> insert_all (st\<lparr>conn := c\<rparr>) elements)"

text \<open>
  \<^verbatim>\<open>save_list_to_database(self, element_list)\<close>. \<^verbatim>\<open>element_list[0]\<close> raises
  IndexError on the empty list, before anything else is done.
\<close>

definition save_list_to_database :: "state \<Rightarrow> pyval list \<Rightarrow> state \<times> (error + unit)" where
  "save_list_to_database st element_list =
     (case element_list of
        [] \<Rightarrow> (st, Inl IndexError)
      | first # _ \<Rightarrow>
          (case create_table st (type_name first) of
             (st1, Inl e) \<Rightarrow> (st1, Inl e)
           | (st1, Inr _) \<Rightarrow>
               (case insert_all st1 element_list of
                  (st2, Inl e) \<Rightarrow> (st2, Inl e)
                | (st2, Inr _) \<Rightarrow>
                    (case conn_commit (conn st2) of (c, r) \<Rightarrow> (st2\<lparr>conn := c\<rparr>, r)))))"

text \<open>
  A data frame: its column labels and its rows. \<^verbatim>\<open>DataFrame.empty\<close> holds when either
  axis has length 0.
\<close>

record dataframe =
  df_columns :: "string list"
  df_rows :: "pyval list list"

definition empty :: "dataframe \<Rightarrow> bool" where
  "empty df = (df_columns df = [] \<or> df_rows df = [])"

text \<open>
  \<^verbatim>\<open>save_object_list(self, list_of_objects)\<close>. Line 95 calls
  \<^verbatim>\<open>create_table_for_object(...)\<close> without \<^verbatim>\<open>self.\<close>: the name is looked up as a
  name of the module, which has none such, and the lookup of the callee comes before the
  evaluation of its argument. So for a frame that is not empty the call raises NameError
  there, and lines 96 to 102 are never reached.
\<close>

definition save_object_list :: "state \<Rightarrow> dataframe \<Rightarrow> state \<times> (error + unit)" where
  "save_object_list st list_of_objects =
     (if empty list_of_objects
      then (print st ''List of objects is empty. No action taken.'', Inr ())
      else (st, Inl (NameError ''create_table_for_object'')))"

definition set_table_name :: "state \<Rightarrow> string \<Rightarrow> state \<times> (error + unit)" where
  "set_table_name st new_table_name =
     (print (st\<lparr>table_name := new_table_name\<rparr>) (''Table name set to: '' @ new_table_name),
      Inr ())"

text \<open>\<^verbatim>\<open>[item[0] for item in result]\<close>: indexing an empty row raises IndexError.\<close>

fun first_items :: "pyval list list \<Rightarrow> error + pyval list" where
  "first_items [] = Inr []"
| "first_items (item # result) =
     (case item of
        [] \<Rightarrow> Inl IndexError
      | x # _ \<Rightarrow> (case first_items result of Inl e \<Rightarrow> Inl e | Inr xs \<Rightarrow> Inr (x # xs)))"

definition get_element_list :: "state \<Rightarrow> state \<times> (error + pyval list)" where
  "get_element_list st =
     (case cursor_execute (conn st) (SelectElement (table_name st)) [] of
        (c, Inl e) \<Rightarrow> (st\<lparr>conn := c\<rparr>, Inl e)
      | (c, Inr _) \<Rightarrow>
          (case cursor_fetchall c of
             (c', Inl e) \<Rightarrow> (st\<lparr>conn := c'\<rparr>, Inl e)
           | (c', Inr result) \<Rightarrow> (st\<lparr>conn := c'\<rparr>, first_items result)))"

definition get_all :: "state \<Rightarrow> state \<times> (error + pyval list list)" where
  "get_all st =
     (case cursor_execute (conn st) (SelectAll (table_name st)) [] of
        (c, Inl e) \<Rightarrow> (st\<lparr>conn := c\<rparr>, Inl e)
      | (c, Inr _) \<Rightarrow>
          (case cursor_fetchall c of (c', r) \<Rightarrow> (st\<lparr>conn := c'\<rparr>, r)))"

definition close_connection :: "state \<Rightarrow> state \<times> (error + unit)" where
  "close_connection st = (st\<lparr>conn := conn_close (conn st)\<rparr>, Inr ())"

subsection \<open>A concrete run\<close>

text \<open>
  An engine that keeps every bound value as it is, a new database file, and the instance
  that \<^verbatim>\<open>DatabaseManager('nba.db')\<close> builds on it. They serve the concrete runs below,
  which store floats in a REAL column.
\<close>

definition keep_engine :: "string \<Rightarrow> pyval \<Rightarrow> error + pyval" where
  "keep_engine ty v = Inr v"

definition new_file :: connection where
  "new_file = \<lparr>is_closed = False, tables = Map.empty, pending = [], journal = [],
                adapt = keep_engine\<rparr>"

definition manager :: state where
  "manager = fst (init new_file [] ''nba.db'' ''my_table'')"

text \<open>The floats 1.5 and 2.5.\<close>

definition f1_5 :: pyval where
  "f1_5 = PyFloat 0x3FF8000000000000"

definition f2_5 :: pyval where
  "f2_5 = PyFloat 0x4004000000000000"

definition one_player :: dataframe where
  "one_player = \<lparr>df_columns = [''name'', ''pts''],
                  df_rows = [[PyStr ''Jokic'', NpInt64 27]]\<rparr>"

definition no_players :: dataframe where
  "no_players = \<lparr>df_columns = [''name'', ''pts''], df_rows = []\<rparr>"

subsection \<open>What a saved list meets\<close>



subsection \<open>The columns of a record\<close>









section \<open>Properties\<close>

subsection \<open>General facts about the driver and the methods\<close>

lemma cursor_execute_closed:
  "is_closed c \<Longrightarrow> cursor_execute c s ps = (c, Inl ProgrammingError)"
  by (simp add: cursor_execute_def)

lemma run_adapt: "run c s ps = Inr c' \<Longrightarrow> adapt c' = adapt c"
  by (cases s) (auto simp: executed_def split: option.splits sum.splits list.splits if_splits)

lemma run_is_closed: "run c s ps = Inr c' \<Longrightarrow> is_closed c' = is_closed c"
  by (cases s) (auto simp: executed_def split: option.splits sum.splits list.splits if_splits)

lemma cursor_execute_is_closed: "is_closed (fst (cursor_execute c s ps)) = is_closed c"
  by (auto simp: cursor_execute_def run_is_closed split: sum.splits)

lemma conn_commit_is_closed: "is_closed (fst (conn_commit c)) = is_closed c"
  by (simp add: conn_commit_def)

lemma cursor_fetchall_is_closed: "is_closed (fst (cursor_fetchall c)) = is_closed c"
  by (simp add: cursor_fetchall_def)

lemma insert_all_table_name: "table_name (fst (insert_all st xs)) = table_name st"
proof (induction xs arbitrary: st)
  case Nil
  show ?case by simp
next
  case (Cons x xs)
  show ?case
  proof (cases "cursor_execute (conn st) (InsertElement (table_name st)) [x]")
    case (Pair c r)
    then show ?thesis using Cons.IH [of "st\<lparr>conn := c\<rparr>"] by (cases r) simp_all
  qed
qed

lemma create_table_table_name: "table_name (fst (create_table st et)) = table_name st"
  by (simp add: create_table_def split: prod.splits sum.splits)

subsection \<open>Saving an empty list\<close>

text \<open>
  C2. \<^verbatim>\<open>save_list_to_database\<close> called with the empty list fails, with the IndexError
  that \<^verbatim>\<open>element_list[0]\<close> raises (the failure on empty input that the specification
  names EmptyInputError), and the state after the call is the state before it: no table
  has been created, no row inserted, no call made to the driver.
\<close>

theorem save_list_to_database_empty:
  "save_list_to_database st [] = (st, Inl IndexError)"
  by (simp add: save_list_to_database_def)

subsection \<open>Saving an empty batch of records\<close>

text \<open>
  C6. \<^verbatim>\<open>save_object_list\<close> called with a frame that has no rows prints its notice and
  returns without error; the connection, and with it every table and the journal of
  driver calls, is as before. The same call on \<^verbatim>\<open>save_list_to_database\<close> is an error.
\<close>

theorem save_object_list_empty:
  assumes "df_rows df = []"
  shows "save_object_list st df =
           (st\<lparr>stdout := stdout st @ [''List of objects is empty. No action taken.'']\<rparr>, Inr ())
         \<and> conn (fst (save_object_list st df)) = conn st
         \<and> snd (save_list_to_database st []) \<noteq> Inr ()"
  using assms by (simp add: save_object_list_def empty_def print_def save_list_to_database_def)

theorem save_object_list_empty_witness:
  "df_rows no_players = []
   \<and> snd (save_object_list manager no_players) = Inr ()
   \<and> stdout (fst (save_object_list manager no_players)) =
       stdout manager @ [''List of objects is empty. No action taken.'']
   \<and> tables (conn (fst (save_object_list manager no_players))) = tables (conn manager)"
  using save_object_list_empty [of no_players manager] by (simp add: no_players_def)

subsection \<open>Changing the active table\<close>

text \<open>
  C8. \<^verbatim>\<open>set_table_name\<close> replaces the field \<open>table_name\<close> and prints one line. It makes
  no call to the driver: the connection is the same, so no table is created, renamed,
  dropped or looked up and every row of every table is as before. It succeeds whether or
  not a table of the new name exists.
\<close>

theorem set_table_name_frame:
  "set_table_name st n =
     (st\<lparr>table_name := n, stdout := stdout st @ [''Table name set to: '' @ n]\<rparr>, Inr ())
   \<and> table_name (fst (set_table_name st n)) = n
   \<and> conn (fst (set_table_name st n)) = conn st
   \<and> tables (conn (fst (set_table_name st n))) = tables (conn st)
   \<and> journal (conn (fst (set_table_name st n))) = journal (conn st)
   \<and> db_name (fst (set_table_name st n)) = db_name st"
  by (simp add: set_table_name_def print_def)

lemma lower_my_table: "lower ''my_table'' = ''my_table''"
  by (simp add: lower_def lower_char_def)

lemma manager_eq:
  "manager =
     \<lparr>db_name = ''nba.db'', table_name = ''my_table'',
      conn = \<lparr>is_closed = False,
               tables = [''my_table'' \<mapsto> new_table (scalar_coldefs ''REAL'')],
               pending = [],
               journal = [Execute (CreateScalarTable ''my_table'' ''REAL'') [], Commit],
               adapt = keep_engine\<rparr>,
      stdout = []\<rparr>"
  by (simp add: manager_def init_def new_file_def create_table_def cursor_execute_def
      executed_def conn_commit_def lower_my_table)

lemma create_table_for_object_table_name:
  "table_name (fst (create_table_for_object st obj)) = table_name st"
  by (simp add: create_table_for_object_def Let_def split: prod.splits sum.splits)

lemma delete_table_table_name: "table_name (fst (delete_table st)) = table_name st"
  by (simp add: delete_table_def print_def split: prod.splits sum.splits)

lemma save_list_to_database_table_name:
  "table_name (fst (save_list_to_database st xs)) = table_name st"
proof (cases xs)
  case Nil
  then show ?thesis by (simp add: save_list_to_database_def)
next
  case (Cons x ys)
  obtain st1 r1 where c: "create_table st (type_name x) = (st1, r1)" by fastforce
  then have t1: "table_name st1 = table_name st"
    using create_table_table_name [of st "type_name x"] by simp
  obtain st2 r2 where i: "insert_all st1 (x # ys) = (st2, r2)" by fastforce
  then have t2: "table_name st2 = table_name st1"
    using insert_all_table_name [of st1 "x # ys"] by simp
  show ?thesis using Cons c i t1 t2
    by (simp add: save_list_to_database_def split: prod.splits sum.splits)
qed

lemma save_object_list_table_name: "table_name (fst (save_object_list st df)) = table_name st"
  by (simp add: save_object_list_def print_def)

lemma get_element_list_table_name: "table_name (fst (get_element_list st)) = table_name st"
  by (simp add: get_element_list_def split: prod.splits sum.splits)

lemma get_all_table_name: "table_name (fst (get_all st)) = table_name st"
  by (simp add: get_all_def split: prod.splits sum.splits)

lemma close_connection_table_name: "table_name (fst (close_connection st)) = table_name st"
  by (simp add: close_connection_def)

lemma delete_table_open:
  assumes "\<not> is_closed (conn st)"
  shows "delete_table st =
     (st\<lparr>conn := (conn st)\<lparr>tables := (tables (conn st))(lower (table_name st) := None),
                              pending := [],
                              journal := journal (conn st)
                                 @ [Execute (DropTable (table_name st)) [], Commit]\<rparr>,
          stdout := stdout st @ [''Table '' @ table_name st @ '' deleted.'']\<rparr>, Inr ())"
  using assms
  by (simp add: delete_table_def cursor_execute_def executed_def conn_commit_def print_def)

subsection \<open>Saving a batch of records\<close>

text \<open>
  C3. The claim is that \<^verbatim>\<open>save_object_list\<close>, given a batch that is not empty, creates
  the table from the first record, inserts every record in one \<^verbatim>\<open>executemany\<close> and
  commits, so that \<^verbatim>\<open>get_all\<close> then returns the records. The code does not: for the
  batch of one record below the call raises NameError at line 95 and leaves the instance
  and the database as they were, so that the active table still has no row.
\<close>

theorem save_object_list_raises:
  "save_object_list manager one_player = (manager, Inl (NameError ''create_table_for_object''))
   \<and> journal (conn (fst (save_object_list manager one_player))) = journal (conn manager)
   \<and> snd (get_all (fst (save_object_list manager one_player))) = Inr []"
  by (simp add: save_object_list_def empty_def one_player_def manager_eq get_all_def
      cursor_execute_def executed_def cursor_fetchall_def scan_def new_table_def lower_my_table)

subsection \<open>The active table name\<close>

text \<open>
  C9. No method other than \<^verbatim>\<open>set_table_name\<close> changes the field \<open>table_name\<close>,
  whatever its outcome: not \<^verbatim>\<open>create_table\<close>, \<^verbatim>\<open>create_table_for_object\<close>,
  \<^verbatim>\<open>delete_table\<close>, the two save methods, the two get methods or
  \<^verbatim>\<open>close_connection\<close>. In particular, after \<^verbatim>\<open>delete_table\<close> on an open connection
  the name is the same and the table it names is gone.
\<close>

theorem table_name_kept:
  "table_name (fst (create_table st et)) = table_name st
   \<and> table_name (fst (create_table_for_object st obj)) = table_name st
   \<and> table_name (fst (delete_table st)) = table_name st
   \<and> table_name (fst (save_list_to_database st xs)) = table_name st
   \<and> table_name (fst (save_object_list st df)) = table_name st
   \<and> table_name (fst (get_element_list st)) = table_name st
   \<and> table_name (fst (get_all st)) = table_name st
   \<and> table_name (fst (close_connection st)) = table_name st
   \<and> (\<not> is_closed (conn st) \<longrightarrow>
        tables (conn (fst (delete_table st))) (lower (table_name (fst (delete_table st)))) = None)"
  by (simp add: create_table_table_name create_table_for_object_table_name
      delete_table_table_name save_list_to_database_table_name save_object_list_table_name
      get_element_list_table_name get_all_table_name close_connection_table_name
      delete_table_open)

theorem table_name_kept_witness:
  "\<not> is_closed (conn manager)
   \<and> tables (conn manager) ''my_table'' \<noteq> None
   \<and> table_name (fst (delete_table manager)) = ''my_table''
   \<and> tables (conn (fst (delete_table manager))) ''my_table'' = None"
proof -
  have o: "\<not> is_closed (conn manager)" by (simp add: manager_eq)
  have t: "table_name manager = ''my_table''" by (simp add: manager_eq)
  have e: "tables (conn manager) ''my_table'' \<noteq> None" by (simp add: manager_eq)
  have "table_name (fst (delete_table manager)) = table_name manager
        \<and> tables (conn (fst (delete_table manager)))
            (lower (table_name (fst (delete_table manager)))) = None"
    using table_name_kept [of manager "''REAL''" undefined "[]" no_players] o by blast
  then have "table_name (fst (delete_table manager)) = ''my_table''
        \<and> tables (conn (fst (delete_table manager))) (lower ''my_table'') = None"
    using t by auto
  then show ?thesis using o e by (simp add: lower_my_table)
qed

lemma create_table_open:
  assumes "\<not> is_closed (conn st)"
  shows "create_table st et =
     (st\<lparr>conn := (conn st)\<lparr>tables :=
                 (case tables (conn st) (lower (table_name st)) of
                    Some t \<Rightarrow> tables (conn st)
                  | None \<Rightarrow> (tables (conn st))(lower (table_name st) \<mapsto> new_table (scalar_coldefs et))),
               pending := [],
               journal := journal (conn st)
                  @ [Execute (CreateScalarTable (table_name st) et) [], Commit]\<rparr>\<rparr>, Inr ())"
  using assms
  by (simp add: create_table_def cursor_execute_def executed_def conn_commit_def
      split: option.splits)

subsection \<open>Creating the scalar table\<close>



lemma insert_all_closed:
  "is_closed (conn st) \<Longrightarrow> insert_all st (x # xs) = (st, Inl ProgrammingError)"
  by (simp add: cursor_execute_closed)

lemma insert_all_is_closed: "is_closed (conn (fst (insert_all st xs))) = is_closed (conn st)"
proof (induction xs arbitrary: st)
  case Nil
  show ?case by simp
next
  case (Cons x xs)
  show ?case
  proof (cases "cursor_execute (conn st) (InsertElement (table_name st)) [x]")
    case (Pair c r)
    then have "is_closed c = is_closed (conn st)"
      using cursor_execute_is_closed [of "conn st" "InsertElement (table_name st)" "[x]"] by simp
    then show ?thesis using Pair Cons.IH [of "st\<lparr>conn := c\<rparr>"] by (cases r) simp_all
  qed
qed

lemma create_table_is_closed: "is_closed (conn (fst (create_table st et))) = is_closed (conn st)"
proof (cases "cursor_execute (conn st) (CreateScalarTable (table_name st) et) []")
  case (Pair c r)
  then have "is_closed c = is_closed (conn st)"
    using cursor_execute_is_closed [of "conn st" "CreateScalarTable (table_name st) et" "[]"]
    by simp
  then show ?thesis using Pair conn_commit_is_closed [of c]
    by (cases r) (auto simp: create_table_def split: prod.splits)
qed

lemma create_table_for_object_is_closed:
  "is_closed (conn (fst (create_table_for_object st obj))) = is_closed (conn st)"
proof (cases "update_columns (split '', '' (upper (join '', '' (properties obj))))")
  case (Inl e)
  then show ?thesis by (simp add: create_table_for_object_def)
next
  case (Inr cols)
  show ?thesis
  proof (cases "cursor_execute (conn st) (CreateObjectTable (table_name st) cols) []")
    case (Pair c r)
    then have "is_closed c = is_closed (conn st)"
      using cursor_execute_is_closed [of "conn st" "CreateObjectTable (table_name st) cols" "[]"]
      by simp
    then show ?thesis using Pair Inr by (cases r) (simp_all add: create_table_for_object_def)
  qed
qed

lemma delete_table_is_closed: "is_closed (conn (fst (delete_table st))) = is_closed (conn st)"
proof (cases "cursor_execute (conn st) (DropTable (table_name st)) []")
  case (Pair c r)
  then have "is_closed c = is_closed (conn st)"
    using cursor_execute_is_closed [of "conn st" "DropTable (table_name st)" "[]"] by simp
  then show ?thesis using Pair conn_commit_is_closed [of c]
    by (cases r) (auto simp: delete_table_def print_def split: prod.splits sum.splits)
qed

lemma save_list_to_database_is_closed:
  "is_closed (conn (fst (save_list_to_database st xs))) = is_closed (conn st)"
proof (cases xs)
  case Nil
  then show ?thesis by (simp add: save_list_to_database_def)
next
  case (Cons x ys)
  obtain st1 r1 where c: "create_table st (type_name x) = (st1, r1)" by fastforce
  then have t1: "is_closed (conn st1) = is_closed (conn st)"
    using create_table_is_closed [of st "type_name x"] by simp
  obtain st2 r2 where i: "insert_all st1 (x # ys) = (st2, r2)" by fastforce
  then have t2: "is_closed (conn st2) = is_closed (conn st1)"
    using insert_all_is_closed [of st1 "x # ys"] by simp
  show ?thesis using Cons c i t1 t2 conn_commit_is_closed [of "conn st2"]
    by (auto simp: save_list_to_database_def split: prod.splits sum.splits)
qed

lemma get_element_list_is_closed:
  "is_closed (conn (fst (get_element_list st))) = is_closed (conn st)"
proof (cases "cursor_execute (conn st) (SelectElement (table_name st)) []")
  case (Pair c r)
  then have "is_closed c = is_closed (conn st)"
    using cursor_execute_is_closed [of "conn st" "SelectElement (table_name st)" "[]"] by simp
  then show ?thesis using Pair cursor_fetchall_is_closed [of c]
    by (cases r) (auto simp: get_element_list_def split: prod.splits sum.splits)
qed

lemma get_all_is_closed: "is_closed (conn (fst (get_all st))) = is_closed (conn st)"
proof (cases "cursor_execute (conn st) (SelectAll (table_name st)) []")
  case (Pair c r)
  then have "is_closed c = is_closed (conn st)"
    using cursor_execute_is_closed [of "conn st" "SelectAll (table_name st)" "[]"] by simp
  then show ?thesis using Pair cursor_fetchall_is_closed [of c]
    by (cases r) (auto simp: get_all_def split: prod.splits sum.splits)
qed

subsection \<open>After the connection is closed\<close>

text \<open>
  C5 as stated fails: after \<^verbatim>\<open>close_connection\<close>, \<^verbatim>\<open>set_table_name\<close> still
  succeeds, and so does \<^verbatim>\<open>save_object_list\<close> on an empty frame. Neither touches the
  connection, and the class itself keeps no record of having been closed: the only
  refusal is the driver's.
\<close>

theorem closed_set_table_name_succeeds:
  "is_closed (conn (fst (close_connection manager)))
   \<and> snd (set_table_name (fst (close_connection manager)) ''players'') = Inr ()
   \<and> table_name (fst (set_table_name (fst (close_connection manager)) ''players'')) = ''players''
   \<and> snd (save_object_list (fst (close_connection manager)) no_players) = Inr ()"
  by (simp add: close_connection_def conn_close_def set_table_name_def print_def
      save_object_list_def empty_def no_players_def)

text \<open>
  C5, amended. \<^verbatim>\<open>close_connection\<close> closes the connection and returns normally. On a
  closed connection every method that calls the driver fails with the driver's error for
  a closed database (ProgrammingError) and changes nothing: \<^verbatim>\<open>create_table\<close>,
  \<^verbatim>\<open>delete_table\<close>, \<^verbatim>\<open>get_element_list\<close>, \<^verbatim>\<open>get_all\<close>,
  \<^verbatim>\<open>save_list_to_database\<close> on a list that is not empty, and
  \<^verbatim>\<open>create_table_for_object\<close> whenever it gets as far as its statement.
  \<^verbatim>\<open>set_table_name\<close>, \<^verbatim>\<open>close_connection\<close> and \<^verbatim>\<open>save_object_list\<close> on an empty
  frame make no driver call and succeed. No method opens a closed connection, and no
  method but \<^verbatim>\<open>close_connection\<close> closes an open one.
\<close>

theorem closed_connection_refuses:
  "is_closed (conn (fst (close_connection st0))) \<and> snd (close_connection st0) = Inr ()
   \<and> (is_closed (conn st) \<longrightarrow>
        create_table st et = (st, Inl ProgrammingError)
      \<and> delete_table st = (st, Inl ProgrammingError)
      \<and> get_element_list st = (st, Inl ProgrammingError)
      \<and> get_all st = (st, Inl ProgrammingError)
      \<and> save_list_to_database st (x # xs) = (st, Inl ProgrammingError)
      \<and> (snd (create_table_for_object st obj) = Inl ProgrammingError
          \<or> snd (create_table_for_object st obj) = Inl ValueError)
      \<and> fst (create_table_for_object st obj) = st
      \<and> snd (set_table_name st n) = Inr ()
      \<and> close_connection st = (st, Inr ())
      \<and> (df_rows df = [] \<longrightarrow> snd (save_object_list st df) = Inr ()))
   \<and> is_closed (conn (fst (create_table st et))) = is_closed (conn st)
   \<and> is_closed (conn (fst (create_table_for_object st obj))) = is_closed (conn st)
   \<and> is_closed (conn (fst (delete_table st))) = is_closed (conn st)
   \<and> is_closed (conn (fst (save_list_to_database st ys))) = is_closed (conn st)
   \<and> is_closed (conn (fst (save_object_list st df))) = is_closed (conn st)
   \<and> is_closed (conn (fst (set_table_name st n))) = is_closed (conn st)
   \<and> is_closed (conn (fst (get_element_list st))) = is_closed (conn st)
   \<and> is_closed (conn (fst (get_all st))) = is_closed (conn st)"
proof -
  have close: "is_closed (conn (fst (close_connection st0))) \<and> snd (close_connection st0) = Inr ()"
    by (simp add: close_connection_def conn_close_def)
  have refused: "create_table st et = (st, Inl ProgrammingError)
      \<and> delete_table st = (st, Inl ProgrammingError)
      \<and> get_element_list st = (st, Inl ProgrammingError)
      \<and> get_all st = (st, Inl ProgrammingError)
      \<and> save_list_to_database st (x # xs) = (st, Inl ProgrammingError)"
    if "is_closed (conn st)"
    using that
    by (simp add: create_table_def delete_table_def get_element_list_def get_all_def
        save_list_to_database_def cursor_execute_closed)
  have object: "(snd (create_table_for_object st obj) = Inl ProgrammingError
          \<or> snd (create_table_for_object st obj) = Inl ValueError)
      \<and> fst (create_table_for_object st obj) = st"
    if c: "is_closed (conn st)"
  proof (cases "update_columns (split '', '' (upper (join '', '' (properties obj))))")
    case (Inl e)
    have "e = ValueError" if "update_columns cs = Inl e" for cs
      using that by (induction cs) (auto split: list.splits sum.splits)
    then show ?thesis using Inl by (simp add: create_table_for_object_def)
  next
    case (Inr cols)
    then show ?thesis using c by (simp add: create_table_for_object_def cursor_execute_closed)
  qed
  have passes: "snd (set_table_name st n) = Inr ()
      \<and> (df_rows df = [] \<longrightarrow> snd (save_object_list st df) = Inr ())"
    by (simp add: set_table_name_def save_object_list_def empty_def)
  have again: "close_connection st = (st, Inr ())" if "is_closed (conn st)"
    using that by (simp add: close_connection_def conn_close_def)
  have stays: "is_closed (conn (fst (save_object_list st df))) = is_closed (conn st)
      \<and> is_closed (conn (fst (set_table_name st n))) = is_closed (conn st)"
    by (simp add: save_object_list_def set_table_name_def print_def)
  show ?thesis
    using close refused object passes again stays
      create_table_is_closed [of st et] create_table_for_object_is_closed [of st obj]
      delete_table_is_closed [of st] save_list_to_database_is_closed [of st ys]
      get_element_list_is_closed [of st] get_all_is_closed [of st]
    by blast
qed

theorem closed_connection_refuses_witness:
  "is_closed (conn (fst (close_connection manager)))
   \<and> snd (get_all (fst (close_connection manager))) = Inl ProgrammingError
   \<and> snd (get_element_list (fst (close_connection manager))) = Inl ProgrammingError
   \<and> snd (save_list_to_database (fst (close_connection manager)) [f1_5]) = Inl ProgrammingError
   \<and> df_rows no_players = []
   \<and> snd (save_object_list (fst (close_connection manager)) no_players) = Inr ()"
proof -
  let ?st = "fst (close_connection manager)"
  have c: "is_closed (conn ?st)" by (simp add: close_connection_def conn_close_def)
  have d: "df_rows no_players = []" by (simp add: no_players_def)
  show ?thesis
    using closed_connection_refuses
      [of manager ?st "''REAL''" f1_5 "[]" undefined "''players''" no_players "[]"] c d
    by simp
qed

lemma cursor_execute_journal:
  "cursor_execute c s ps = (c', Inr ()) \<Longrightarrow> journal c' = journal c @ [Execute s ps]"
  by (cases s)
     (auto simp: cursor_execute_def executed_def
           split: if_splits option.splits sum.splits list.splits)

lemma cursor_execute_failed: "cursor_execute c s ps = (c', Inl e) \<Longrightarrow> c' = c"
  by (auto simp: cursor_execute_def split: if_splits sum.splits)

lemma insert_all_journal:
  "insert_all st xs = (st', Inr ()) \<Longrightarrow>
     journal (conn st') =
       journal (conn st) @ map (\<lambda>x. Execute (InsertElement (table_name st)) [x]) xs"
proof (induction xs arbitrary: st)
  case Nil
  then show ?case by simp
next
  case (Cons x xs)
  show ?case
  proof (cases "cursor_execute (conn st) (InsertElement (table_name st)) [x]")
    case (Pair c r)
    show ?thesis
    proof (cases r)
      case (Inl e)
      then show ?thesis using Pair Cons.prems by simp
    next
      case (Inr u)
      then have j: "journal c = journal (conn st) @ [Execute (InsertElement (table_name st)) [x]]"
        using Pair cursor_execute_journal by simp
      have "insert_all (st\<lparr>conn := c\<rparr>) xs = (st', Inr ())"
        using Pair Inr Cons.prems by simp
      from Cons.IH [OF this] j show ?thesis by simp
    qed
  qed
qed

subsection \<open>The statements of a saved list\<close>

text \<open>
  C10. When \<^verbatim>\<open>save_list_to_database\<close> returns normally, the driver has carried out,
  after the \<^verbatim>\<open>create_table\<close> of line 84 (one statement and its commit), one execute
  for each element, in order, and then one commit: lines 86 to 88. Each execute has the
  same text, \<^verbatim>\<open>INSERT INTO <table> (list_element) VALUES (?)\<close>, and the element as its
  one parameter, so the text does not depend on the element; no commit stands between
  two inserts.
\<close>

theorem save_list_to_database_calls:
  assumes "save_list_to_database st (x # xs) = (st', Inr ())"
  shows "journal (conn st') =
           journal (conn st)
           @ [Execute (CreateScalarTable (table_name st) (type_name x)) [], Commit]
           @ map (\<lambda>element. Execute (InsertElement (table_name st)) [element]) (x # xs)
           @ [Commit]
       \<and> sql_text (InsertElement (table_name st)) =
           ''INSERT INTO '' @ table_name st @ '' (list_element) VALUES (?)''"
proof -
  obtain st1 r1 where c: "create_table st (type_name x) = (st1, r1)" by fastforce
  obtain st2 r2 where i: "insert_all st1 (x # xs) = (st2, r2)" by fastforce
  have r1: "r1 = Inr ()" using assms c
    by (cases r1) (simp_all add: save_list_to_database_def)
  have r2: "r2 = Inr ()" using assms c i r1
    by (cases r2) (simp_all add: save_list_to_database_def)
  have o: "\<not> is_closed (conn st)"
  proof
    assume "is_closed (conn st)"
    then have "create_table st (type_name x) = (st, Inl ProgrammingError)"
      by (simp add: create_table_def cursor_execute_closed)
    then show False using c r1 by simp
  qed
  have j1: "journal (conn st1) =
      journal (conn st) @ [Execute (CreateScalarTable (table_name st) (type_name x)) [], Commit]"
  proof -
    have "st1 = fst (create_table st (type_name x))" using c by simp
    then show ?thesis by (simp add: create_table_open [OF o])
  qed
  have n1: "table_name st1 = table_name st"
    using c create_table_table_name [of st "type_name x"] by simp
  have j2: "journal (conn st2) =
      journal (conn st1) @ map (\<lambda>element. Execute (InsertElement (table_name st1)) [element]) (x # xs)"
    using insert_all_journal i r2 by blast
  have o2: "\<not> is_closed (conn st2)"
    using o c i create_table_is_closed [of st "type_name x"] insert_all_is_closed [of st1 "x # xs"]
    by simp
  have "st' = st2\<lparr>conn := (conn st2)\<lparr>journal := journal (conn st2) @ [Commit]\<rparr>\<rparr>"
    using assms c i r1 r2 o2 by (simp add: save_list_to_database_def conn_commit_def)
  then show ?thesis using j1 j2 n1 by simp
qed

theorem save_list_to_database_calls_witness:
  "snd (save_list_to_database manager [f1_5, f2_5]) = Inr ()
   \<and> journal (conn (fst (save_list_to_database manager [f1_5, f2_5]))) =
       [Execute (CreateScalarTable ''my_table'' ''REAL'') [], Commit,
        Execute (CreateScalarTable ''my_table'' ''float'') [], Commit,
        Execute (InsertElement ''my_table'') [f1_5],
        Execute (InsertElement ''my_table'') [f2_5],
        Commit]"
proof -
  have ok: "snd (save_list_to_database manager [f1_5, f2_5]) = Inr ()"
    by (simp add: manager_eq save_list_to_database_def create_table_def cursor_execute_def
        executed_def conn_commit_def insert_element_def keep_engine_def lower_my_table
        new_table_def scalar_coldefs_def col_name_def lower_def lower_char_def f1_5_def f2_5_def)
  then have run: "save_list_to_database manager [f1_5, f2_5] =
               (fst (save_list_to_database manager [f1_5, f2_5]), Inr ())"
    by (metis prod.collapse)
  have j: "journal (conn manager) = [Execute (CreateScalarTable ''my_table'' ''REAL'') [], Commit]"
    by (simp add: manager_eq)
  have n: "table_name manager = ''my_table''" by (simp add: manager_eq)
  have t: "type_name f1_5 = ''float''" by (simp add: f1_5_def)
  show ?thesis using save_list_to_database_calls [OF run] ok j n t by simp
qed












lemma lower_list_element: "lower ''list_element'' = ''list_element''"
  by (simp add: lower_def lower_char_def)


subsection \<open>Saving a list and reading it back\<close>


























subsection \<open>Creating the table of a record\<close>




end
